theory Spec2Isabelle
  imports Main "HOL-Library.Word"
begin

unbundle bit_operations_syntax

section \<open>Data model of \<^verbatim>\<open>app/src/rgb_underglow.c\<close>\<close>

text \<open>
  \<^verbatim>\<open>struct zmk_led_hsb\<close> (hue in a 16-bit field, saturation and brightness in 8-bit
  fields) and \<^verbatim>\<open>struct led_rgb\<close> (three 8-bit channels). The field names carry a
  prefix because both structs have a member \<^verbatim>\<open>b\<close>.
\<close>

record zmk_led_hsb =
  hsb_h :: "16 word"
  hsb_s :: "8 word"
  hsb_b :: "8 word"

record led_rgb =
  rgb_r :: "8 word"
  rgb_g :: "8 word"
  rgb_b :: "8 word"

text \<open>\<^verbatim>\<open>struct rgb_underglow_state\<close>, field by field.\<close>

record rgb_underglow_state =
  color :: zmk_led_hsb
  animation_speed :: "8 word"
  current_effect :: "8 word"
  animation_step :: "16 word"
  on :: bool
  status_active :: bool
  status_animation_step :: "16 word"

text \<open>
  \<^verbatim>\<open>struct zmk_periph_led\<close>, the record exchanged between the two halves. The source
  uses its members \<^verbatim>\<open>layer\<close>, \<^verbatim>\<open>indicators\<close>, \<^verbatim>\<open>on\<close> and \<^verbatim>\<open>effect\<close>; the declaration
  lives in a header, the byte-sized fields below follow the uses (\<^verbatim>\<open>layer\<close> is passed as
  \<^verbatim>\<open>uint8_t\<close>, \<^verbatim>\<open>effect\<close> is copied from and to the \<^verbatim>\<open>uint8_t current_effect\<close>).
\<close>

record zmk_periph_led =
  periph_layer :: "8 word"
  periph_indicators :: "8 word"
  periph_on :: bool
  periph_effect :: "8 word"

section \<open>Layer to colour-pair mapping\<close>

text \<open>
  \<^verbatim>\<open>zmk_led_layer_to_colors(layer, &left, &right)\<close>: the two out-parameters are returned
  as a pair. The arithmetic is done in \<^verbatim>\<open>int\<close> after integer promotion and stored back
  into \<^verbatim>\<open>uint8_t\<close>.
\<close>

definition zmk_led_layer_to_colors :: "8 word \<Rightarrow> 8 word \<times> 8 word" where
  "zmk_led_layer_to_colors layer =
     (if layer < 8 then (layer, layer)
      else
        let left = (word_of_int (1 + (uint layer - 8) div 6) :: 8 word);
            right = (word_of_int (1 + (uint layer - 8) mod 6) :: 8 word)
        in if left \<le> right then (left, right + 1) else (left, right))"

section \<open>Build configuration\<close>

text \<open>
  The devicetree and Kconfig values the code is compiled against, as one record:
  \<^verbatim>\<open>STRIP_NUM_PIXELS\<close>, \<^verbatim>\<open>CONFIG_ZMK_RGB_UNDERGLOW_BRT_MAX\<close>, the three
  \<^verbatim>\<open>CONFIG_ZMK_RGB_UNDERGLOW_*_STEP\<close> increments, and the three preprocessor switches
  \<^verbatim>\<open>ZMK_BLE_IS_CENTRAL\<close>, \<^verbatim>\<open>CONFIG_ZMK_RGB_UNDERGLOW_EXT_POWER\<close> and
  \<^verbatim>\<open>UNDERGLOW_INDICATORS_ENABLED\<close>.
\<close>

record config =
  strip_num_pixels :: nat
  brt_max :: nat
  hue_step :: int
  sat_step :: int
  brt_step :: int
  ble_is_central :: bool
  ext_power :: bool
  indicators_enabled :: bool

section \<open>Module state, results and calls into the kernel\<close>

text \<open>The negative errno values the commands return; success (0) is \<open>Inr ()\<close>.\<close>

datatype errno = ENODEV | EINVAL | ENOTSUP

text \<open>
  Calls that leave the module (timer, external power rail, work queue, split link, strip
  driver) are appended to a log in program order. Their return codes are only logged by
  the source, so they do not feed back into the model.
\<close>

datatype kcall =
    Ext_power_enable
  | Ext_power_disable
  | K_timer_start
  | K_timer_stop
  | Submit_off_work
  | Split_bt_update_led zmk_periph_led
  | Led_strip_update_rgb "led_rgb list"

text \<open>
  The file-scope variables: \<^verbatim>\<open>led_strip\<close> (here: whether the pointer is non-NULL),
  \<^verbatim>\<open>state\<close>, \<^verbatim>\<open>led_data\<close>, the two pixel arrays, and the call log.
\<close>

record underglow =
  led_strip :: bool
  state :: rgb_underglow_state
  led_data :: zmk_periph_led
  pixels :: "led_rgb list"
  status_pixels :: "led_rgb list"
  calls :: "kcall list"

definition call :: "kcall \<Rightarrow> underglow \<Rightarrow> underglow" where
  "call c w = w\<lparr>calls := calls w @ [c]\<rparr>"

text \<open>\<^verbatim>\<open>zmk_rgb_underglow_central_send\<close>: a failed send is logged and nothing else.\<close>

definition zmk_rgb_underglow_central_send :: "underglow \<Rightarrow> underglow" where
  "zmk_rgb_underglow_central_send w = call (Split_bt_update_led (led_data w)) w"

section \<open>Brightness scaling and the Breathe effect\<close>

definition hsb_scale_zero_max :: "config \<Rightarrow> zmk_led_hsb \<Rightarrow> zmk_led_hsb" where
  "hsb_scale_zero_max cfg hsb =
     hsb\<lparr>hsb_b := word_of_int (uint (hsb_b hsb) * int (brt_max cfg) div 100)\<rparr>"

text \<open>
  \<^verbatim>\<open>zmk_rgb_underglow_effect_breathe\<close>. The source converts each colour with
  \<^verbatim>\<open>hsb_to_rgb\<close>, which computes in single-precision floating point; the effect is
  modelled for an arbitrary conversion function \<open>hsb_to_rgb\<close>. The loop writes every
  one of the \<^verbatim>\<open>STRIP_NUM_PIXELS\<close> entries from values that do not change inside it.
  The step is a \<^verbatim>\<open>uint16_t\<close>: the addition wraps modulo 65536 before the comparison.
\<close>

definition breathe_hsb :: "rgb_underglow_state \<Rightarrow> zmk_led_hsb" where
  "breathe_hsb st =
     (color st)\<lparr>hsb_b := word_of_int (\<bar>uint (animation_step st) - 1200\<bar> div 12)\<rparr>"

definition zmk_rgb_underglow_effect_breathe ::
  "config \<Rightarrow> (zmk_led_hsb \<Rightarrow> led_rgb) \<Rightarrow> underglow \<Rightarrow> underglow" where
  "zmk_rgb_underglow_effect_breathe cfg hsb_to_rgb w =
     (let st = state w;
          px = map (\<lambda>i. hsb_to_rgb (hsb_scale_zero_max cfg (breathe_hsb st)))
                 [0..<strip_num_pixels cfg];
          step = (word_of_int (uint (animation_step st) + uint (animation_speed st) * 10)
                    :: 16 word);
          step' = (if step > 2400 then 0 else step)
      in w\<lparr>pixels := px, state := st\<lparr>animation_step := step'\<rparr>\<rparr>)"

section \<open>Commands\<close>

definition zmk_rgb_underglow_on :: "config \<Rightarrow> underglow \<Rightarrow> (errno + unit) \<times> underglow" where
  "zmk_rgb_underglow_on cfg w =
     (if \<not> led_strip w then (Inl ENODEV, w)
      else
        let w1 = (if ext_power cfg then call Ext_power_enable w else w);
            w2 = w1\<lparr>state := (state w1)\<lparr>on := True, animation_step := 0\<rparr>\<rparr>;
            w3 = call K_timer_start w2;
            w4 = (if ble_is_central cfg
                  then zmk_rgb_underglow_central_send
                         (w3\<lparr>led_data := (led_data w3)\<lparr>periph_on := True\<rparr>\<rparr>)
                  else w3)
        in (Inr (), w4))"

text \<open>
  \<^verbatim>\<open>zmk_rgb_underglow_off\<close>. The work item that blanks the strip runs later on the work
  queue; the command itself only submits it.
\<close>

definition zmk_rgb_underglow_off :: "config \<Rightarrow> underglow \<Rightarrow> (errno + unit) \<times> underglow" where
  "zmk_rgb_underglow_off cfg w =
     (if \<not> led_strip w then (Inl ENODEV, w)
      else
        let w1 = (if ext_power cfg then call Ext_power_disable w else w);
            w2 = call Submit_off_work w1;
            w3 = call K_timer_stop w2;
            w4 = w3\<lparr>state := (state w3)\<lparr>on := False\<rparr>\<rparr>;
            w5 = (if ble_is_central cfg
                  then zmk_rgb_underglow_central_send
                         (w4\<lparr>led_data := (led_data w4)\<lparr>periph_on := False\<rparr>\<rparr>)
                  else w4)
        in (Inr (), w5))"

definition zmk_rgb_underglow_toggle :: "config \<Rightarrow> underglow \<Rightarrow> (errno + unit) \<times> underglow" where
  "zmk_rgb_underglow_toggle cfg w =
     (if on (state w) then zmk_rgb_underglow_off cfg w else zmk_rgb_underglow_on cfg w)"

text \<open>
  \<^verbatim>\<open>zmk_rgb_underglow_set_periph\<close>: \<^verbatim>\<open>led_data.effect\<close> is read after the on/off call,
  which may have rewritten \<^verbatim>\<open>led_data.on\<close> on a central build.
\<close>

definition zmk_rgb_underglow_set_periph ::
  "config \<Rightarrow> zmk_periph_led \<Rightarrow> underglow \<Rightarrow> (errno + unit) \<times> underglow" where
  "zmk_rgb_underglow_set_periph cfg periph w =
     (let w1 = w\<lparr>led_data := periph\<rparr>;
          w2 = (if \<not> on (state w1) \<and> periph_on (led_data w1)
                then snd (zmk_rgb_underglow_on cfg w1)
                else if on (state w1) \<and> \<not> periph_on (led_data w1)
                then snd (zmk_rgb_underglow_off cfg w1)
                else w1);
          w3 = w2\<lparr>state := (state w2)\<lparr>current_effect := periph_effect (led_data w2)\<rparr>\<rparr>
      in (Inr (), w3))"

text \<open>
  C's \<^verbatim>\<open>%\<close> truncates towards zero; \<^verbatim>\<open>UNDERGLOW_EFFECT_NUMBER\<close> is 7.
\<close>

definition c_rem :: "int \<Rightarrow> int \<Rightarrow> int" where
  "c_rem a n = sgn a * (\<bar>a\<bar> mod \<bar>n\<bar>)"

definition UNDERGLOW_EFFECT_NUMBER :: int where
  "UNDERGLOW_EFFECT_NUMBER = 7"

definition zmk_rgb_underglow_calc_effect :: "int \<Rightarrow> underglow \<Rightarrow> int" where
  "zmk_rgb_underglow_calc_effect direction w =
     c_rem (uint (current_effect (state w)) + UNDERGLOW_EFFECT_NUMBER + direction)
       UNDERGLOW_EFFECT_NUMBER"

definition zmk_rgb_underglow_select_effect ::
  "config \<Rightarrow> int \<Rightarrow> underglow \<Rightarrow> (errno + unit) \<times> underglow" where
  "zmk_rgb_underglow_select_effect cfg effect w =
     (if \<not> led_strip w then (Inl ENODEV, w)
      else if effect < 0 \<or> effect \<ge> UNDERGLOW_EFFECT_NUMBER then (Inl EINVAL, w)
      else
        let w1 = w\<lparr>state := (state w)\<lparr>current_effect := word_of_int effect,
                                          animation_step := 0\<rparr>\<rparr>;
            w2 = (if ble_is_central cfg
                  then zmk_rgb_underglow_central_send
                         (w1\<lparr>led_data := (led_data w1)\<lparr>periph_effect := word_of_int effect\<rparr>\<rparr>)
                  else w1)
        in (Inr (), w2))"

definition zmk_rgb_underglow_cycle_effect ::
  "config \<Rightarrow> int \<Rightarrow> underglow \<Rightarrow> (errno + unit) \<times> underglow" where
  "zmk_rgb_underglow_cycle_effect cfg direction w =
     zmk_rgb_underglow_select_effect cfg (zmk_rgb_underglow_calc_effect direction w) w"

text \<open>\<^verbatim>\<open>HUE_MAX\<close>, \<^verbatim>\<open>SAT_MAX\<close> and \<^verbatim>\<open>BRT_MAX\<close> are 360, 100 and 100.\<close>

definition zmk_rgb_underglow_set_hsb ::
  "zmk_led_hsb \<Rightarrow> underglow \<Rightarrow> (errno + unit) \<times> underglow" where
  "zmk_rgb_underglow_set_hsb c w =
     (if hsb_h c > 360 \<or> hsb_s c > 100 \<or> hsb_b c > 100 then (Inl ENOTSUP, w)
      else (Inr (), w\<lparr>state := (state w)\<lparr>color := c\<rparr>\<rparr>))"

definition zmk_rgb_underglow_calc_hue :: "config \<Rightarrow> int \<Rightarrow> underglow \<Rightarrow> zmk_led_hsb" where
  "zmk_rgb_underglow_calc_hue cfg direction w =
     (let c = color (state w);
          h1 = (word_of_int (uint (hsb_h c) + (360 + direction * hue_step cfg)) :: 16 word)
      in c\<lparr>hsb_h := h1 mod 360\<rparr>)"

definition zmk_rgb_underglow_calc_sat :: "config \<Rightarrow> int \<Rightarrow> underglow \<Rightarrow> zmk_led_hsb" where
  "zmk_rgb_underglow_calc_sat cfg direction w =
     (let c = color (state w);
          s = uint (hsb_s c) + direction * sat_step cfg;
          s' = (if s < 0 then 0 else if s > 100 then 100 else s)
      in c\<lparr>hsb_s := word_of_int s'\<rparr>)"

text \<open>Zephyr's \<^verbatim>\<open>CLAMP(val, low, high)\<close> is \<^verbatim>\<open>val <= low ? low : MIN(val, high)\<close>.\<close>

definition zmk_rgb_underglow_calc_brt :: "config \<Rightarrow> int \<Rightarrow> underglow \<Rightarrow> zmk_led_hsb" where
  "zmk_rgb_underglow_calc_brt cfg direction w =
     (let c = color (state w);
          b = uint (hsb_b c) + direction * brt_step cfg
      in c\<lparr>hsb_b := word_of_int (if b \<le> 0 then 0 else min b 100)\<rparr>)"

text \<open>\<^verbatim>\<open>zmk_rgb_underglow_save_state\<close> returns 0 and does nothing else.\<close>

definition zmk_rgb_underglow_change_hue ::
  "config \<Rightarrow> int \<Rightarrow> underglow \<Rightarrow> (errno + unit) \<times> underglow" where
  "zmk_rgb_underglow_change_hue cfg direction w =
     (if \<not> led_strip w then (Inl ENODEV, w)
      else (Inr (), w\<lparr>state := (state w)\<lparr>color := zmk_rgb_underglow_calc_hue cfg direction w\<rparr>\<rparr>))"

definition zmk_rgb_underglow_change_sat ::
  "config \<Rightarrow> int \<Rightarrow> underglow \<Rightarrow> (errno + unit) \<times> underglow" where
  "zmk_rgb_underglow_change_sat cfg direction w =
     (if \<not> led_strip w then (Inl ENODEV, w)
      else (Inr (), w\<lparr>state := (state w)\<lparr>color := zmk_rgb_underglow_calc_sat cfg direction w\<rparr>\<rparr>))"

definition zmk_rgb_underglow_change_brt ::
  "config \<Rightarrow> int \<Rightarrow> underglow \<Rightarrow> (errno + unit) \<times> underglow" where
  "zmk_rgb_underglow_change_brt cfg direction w =
     (if \<not> led_strip w then (Inl ENODEV, w)
      else (Inr (), w\<lparr>state := (state w)\<lparr>color := zmk_rgb_underglow_calc_brt cfg direction w\<rparr>\<rparr>))"

definition zmk_rgb_underglow_change_spd ::
  "int \<Rightarrow> underglow \<Rightarrow> (errno + unit) \<times> underglow" where
  "zmk_rgb_underglow_change_spd direction w =
     (if \<not> led_strip w then (Inl ENODEV, w)
      else if animation_speed (state w) = 1 \<and> direction < 0 then (Inr (), w)
      else
        let sp = (word_of_int (uint (animation_speed (state w)) + direction) :: 8 word);
            sp' = (if sp > 5 then 5 else sp)
        in (Inr (), w\<lparr>state := (state w)\<lparr>animation_speed := sp'\<rparr>\<rparr>))"

definition zmk_rgb_underglow_status :: "config \<Rightarrow> underglow \<Rightarrow> (errno + unit) \<times> underglow" where
  "zmk_rgb_underglow_status cfg w =
     (if \<not> led_strip w then (Inl ENODEV, w)
      else
        let w1 = w\<lparr>state := (state w)\<lparr>status_active := True, status_animation_step := 0\<rparr>\<rparr>;
            w2 = (if \<not> on (state w1) then call K_timer_start w1 else w1);
            w3 = (if ext_power cfg \<and> \<not> on (state w2) then call Ext_power_enable w2 else w2)
        in (Inr (), w3))"

section \<open>Status overlay envelope and compositor\<close>

text \<open>
  \<^verbatim>\<open>zmk_led_generate_status\<close>. The first part of the function paints
  \<^verbatim>\<open>status_pixels\<close> from battery, lock, layer and connection sources outside this
  module; \<open>painted\<close> is the array content it leaves. The second part computes the blend
  weight from \<^verbatim>\<open>state.status_animation_step\<close> (500 / 25 = 20, 8000 / 25 = 320,
  10000 / 25 = 400, 2000 / 25 = 80). Without \<^verbatim>\<open>UNDERGLOW_INDICATORS_ENABLED\<close> the function
  is the stub that returns 0.
\<close>

definition zmk_led_generate_status ::
  "config \<Rightarrow> led_rgb list \<Rightarrow> underglow \<Rightarrow> int \<times> underglow" where
  "zmk_led_generate_status cfg painted w =
     (if \<not> indicators_enabled cfg then (0, w)
      else
        let w1 = w\<lparr>status_pixels := painted\<rparr>;
            step = uint (status_animation_step (state w1))
        in if step < 20 then ((step * 256) div 20, w1)
           else if step < 320 then (256, w1)
           else if step < 400 then (256 - ((step - 320) * 256) div 80, w1)
           else
             let w2 = w1\<lparr>state := (state w1)\<lparr>status_active := False,
                                                status_animation_step := 0\<rparr>\<rparr>;
                 w3 = (if \<not> on (state w2)
                       then (let w' = call K_timer_stop w2
                             in if ext_power cfg then call Ext_power_disable w' else w')
                       else w2)
             in (0, w3))"

text \<open>
  The three branches of \<^verbatim>\<open>zmk_led_write_pixels\<close> that fill \<^verbatim>\<open>led_buffer\<close>: copy of the
  effect buffer, copy of the status buffer, or the per-channel blend with
  \<^verbatim>\<open>uint16_t blend_l = blend\<close> and \<^verbatim>\<open>uint16_t blend_r = 256 - blend\<close>. Each product is
  shifted on its own before the two are added and stored into the \<^verbatim>\<open>uint8_t\<close> channel.
\<close>

definition blend_channel :: "16 word \<Rightarrow> 16 word \<Rightarrow> 8 word \<Rightarrow> 8 word \<Rightarrow> 8 word" where
  "blend_channel blend_l blend_r s e =
     word_of_int (drop_bit 8 (uint s * uint blend_l) + drop_bit 8 (uint e * uint blend_r))"

definition led_buffer_blend ::
  "nat \<Rightarrow> int \<Rightarrow> led_rgb list \<Rightarrow> led_rgb list \<Rightarrow> led_rgb list" where
  "led_buffer_blend n blend E S =
     (if blend = 0 then map (\<lambda>i. E ! i) [0..<n]
      else if blend \<ge> 256 then map (\<lambda>i. S ! i) [0..<n]
      else
        let blend_l = (word_of_int blend :: 16 word);
            blend_r = (word_of_int (256 - blend) :: 16 word)
        in map (\<lambda>i. \<lparr>rgb_r = blend_channel blend_l blend_r (rgb_r (S ! i)) (rgb_r (E ! i)),
                      rgb_g = blend_channel blend_l blend_r (rgb_g (S ! i)) (rgb_g (E ! i)),
                      rgb_b = blend_channel blend_l blend_r (rgb_b (S ! i)) (rgb_b (E ! i))\<rparr>)
             [0..<n])"

text \<open>The battery dimming at the end of \<^verbatim>\<open>zmk_led_write_pixels\<close>.\<close>

definition led_buffer_dim :: "nat \<Rightarrow> int \<Rightarrow> led_rgb list \<Rightarrow> led_rgb list" where
  "led_buffer_dim n bat_level buf =
     (if bat_level < 10 then replicate n \<lparr>rgb_r = 0, rgb_g = 0, rgb_b = 0\<rparr>
      else if bat_level < 20
      then map (\<lambda>i. \<lparr>rgb_r = drop_bit 1 (rgb_r (buf ! i)),
                      rgb_g = drop_bit 1 (rgb_g (buf ! i)),
                      rgb_b = drop_bit 1 (rgb_b (buf ! i))\<rparr>) [0..<n]
      else buf)"

text \<open>
  The buffer \<^verbatim>\<open>zmk_led_write_pixels\<close> hands to \<^verbatim>\<open>led_strip_update_rgb\<close>, as a function
  of the locals \<^verbatim>\<open>bat_level\<close> and \<^verbatim>\<open>blend\<close> and of the two pixel arrays: the fast path
  passes \<^verbatim>\<open>pixels\<close> itself, every other path passes \<^verbatim>\<open>led_buffer\<close>.
\<close>

definition strip_buffer ::
  "nat \<Rightarrow> int \<Rightarrow> int \<Rightarrow> led_rgb list \<Rightarrow> led_rgb list \<Rightarrow> led_rgb list" where
  "strip_buffer n bat_level blend E S =
     (if blend = 0 \<and> bat_level \<ge> 20 then E
      else led_buffer_dim n bat_level (led_buffer_blend n blend E S))"

text \<open>
  \<^verbatim>\<open>zmk_led_write_pixels\<close>; \<open>bat_level\<close> is the value read from
  \<^verbatim>\<open>zmk_battery_state_of_charge()\<close>. The counter is incremented after
  \<^verbatim>\<open>zmk_led_generate_status\<close> returns, whatever that call did to the state.
\<close>

definition zmk_led_write_pixels ::
  "config \<Rightarrow> int \<Rightarrow> led_rgb list \<Rightarrow> underglow \<Rightarrow> underglow" where
  "zmk_led_write_pixels cfg bat_level painted w =
     (let (blend, w1) =
            (if status_active (state w)
             then (let (bl, w') = zmk_led_generate_status cfg painted w
                   in (bl, w'\<lparr>state := (state w')\<lparr>status_animation_step :=
                                  status_animation_step (state w') + 1\<rparr>\<rparr>))
             else (0, w))
      in call (Led_strip_update_rgb
                 (strip_buffer (strip_num_pixels cfg) bat_level blend
                    (pixels w1) (status_pixels w1))) w1)"

text \<open>
  The blend formula as the specification words it, one shift after the sum:
  \<open>(S\<cdot>w + E\<cdot>(256 - w)) >> 8\<close>.
\<close>

definition spec_blend_channel :: "int \<Rightarrow> int \<Rightarrow> int \<Rightarrow> int" where
  "spec_blend_channel s e w = drop_bit 8 (s * w + e * (256 - w))"

section \<open>A sample build and a sample state\<close>

text \<open>
  A three-pixel peripheral build with external power and status indicators, and the state
  right after start-up with the strip switched off. They serve as concrete inputs.
\<close>

definition sample_config :: config where
  "sample_config = \<lparr>strip_num_pixels = 3, brt_max = 100, hue_step = 10, sat_step = 10,
     brt_step = 10, ble_is_central = False, ext_power = True, indicators_enabled = True\<rparr>"

definition black :: led_rgb where
  "black = \<lparr>rgb_r = 0, rgb_g = 0, rgb_b = 0\<rparr>"

definition sample_underglow :: underglow where
  "sample_underglow =
     \<lparr>led_strip = True,
      state = \<lparr>color = \<lparr>hsb_h = 0, hsb_s = 100, hsb_b = 100\<rparr>, animation_speed = 1,
               current_effect = 1, animation_step = 0, on = False, status_active = False,
               status_animation_step = 0\<rparr>,
      led_data = \<lparr>periph_layer = 0, periph_indicators = 0, periph_on = False,
                  periph_effect = 1\<rparr>,
      pixels = [black, black, black],
      status_pixels = [black, black, black],
      calls = []\<rparr>"

text \<open>
  A stand-in for the floating-point conversion where a concrete function is needed: all
  three channels take the brightness byte.
\<close>

definition grey_rgb :: "zmk_led_hsb \<Rightarrow> led_rgb" where
  "grey_rgb c = \<lparr>rgb_r = hsb_b c, rgb_g = hsb_b c, rgb_b = hsb_b c\<rparr>"

text \<open>
  Three further states with a coloured effect buffer: no overlay, an overlay in its
  fade-in (counter 10, weight 128) and an overlay on its plateau (counter 100, weight
  256); and a painted status buffer.
\<close>

definition sample_idle :: underglow where
  "sample_idle =
     sample_underglow\<lparr>pixels := [\<lparr>rgb_r = 200, rgb_g = 100, rgb_b = 50\<rparr>,
                                  \<lparr>rgb_r = 200, rgb_g = 100, rgb_b = 50\<rparr>,
                                  \<lparr>rgb_r = 200, rgb_g = 100, rgb_b = 50\<rparr>]\<rparr>"

definition sample_fading :: underglow where
  "sample_fading =
     sample_idle\<lparr>state := (state sample_idle)\<lparr>status_active := True,
                                                  status_animation_step := 10\<rparr>\<rparr>"

definition sample_plateau :: underglow where
  "sample_plateau =
     sample_idle\<lparr>state := (state sample_idle)\<lparr>status_active := True,
                                                  status_animation_step := 100\<rparr>\<rparr>"

definition sample_painted :: "led_rgb list" where
  "sample_painted = [\<lparr>rgb_r = 0, rgb_g = 0, rgb_b = 255\<rparr>,
                     \<lparr>rgb_r = 0, rgb_g = 0, rgb_b = 255\<rparr>,
                     \<lparr>rgb_r = 0, rgb_g = 0, rgb_b = 255\<rparr>]"

section \<open>Properties\<close>

subsection \<open>Reading words and copying arrays\<close>

lemma uint_of_int_u8:
  "0 \<le> k \<Longrightarrow> k < 256 \<Longrightarrow> uint (word_of_int k :: 8 word) = k"
  by (simp only: uint_word_of_int) simp

lemma uint_of_int_u16:
  "0 \<le> k \<Longrightarrow> k < 65536 \<Longrightarrow> uint (word_of_int k :: 16 word) = k"
  by (simp only: uint_word_of_int) simp

lemma uint_of_int_u16_mod: "uint (word_of_int k :: 16 word) = k mod 65536"
  by (simp only: uint_word_of_int) simp

lemma div_sum_le: "(a::int) div 256 + b div 256 \<le> (a + b) div 256"
proof -
  have "0 \<le> (a mod 256 + b mod 256) div 256"
    by (simp add: pos_imp_zdiv_nonneg_iff)
  then show ?thesis by (simp add: div_add1_eq [of a b 256])
qed

lemma copy_loop: "length xs = n \<Longrightarrow> map (\<lambda>i. xs ! i) [0..<n] = xs"
  by (auto simp add: map_nth)

lemma halve_channel: "drop_bit (Suc 0) (x :: 8 word) = word_of_int (uint x div 2)"
proof -
  have "uint (drop_bit (Suc 0) x) = uint x div 2"
    by (simp add: drop_bit_eq_div uint_div_distrib)
  moreover have "uint (word_of_int (uint x div 2) :: 8 word) = uint x div 2"
  proof (rule uint_of_int_u8)
    show "0 \<le> uint x div 2" by simp
    show "uint x div 2 < 256" using uint_bounded [of x] by simp
  qed
  ultimately show ?thesis by (simp only: word_uint_eq_iff)
qed

lemma dim_loop:
  "length buf = n \<Longrightarrow>
   map (\<lambda>i. \<lparr>rgb_r = drop_bit 1 (rgb_r (buf ! i)), rgb_g = drop_bit 1 (rgb_g (buf ! i)),
              rgb_b = drop_bit 1 (rgb_b (buf ! i))\<rparr>) [0..<n]
   = map (\<lambda>p. \<lparr>rgb_r = word_of_int (uint (rgb_r p) div 2),
                rgb_g = word_of_int (uint (rgb_g p) div 2),
                rgb_b = word_of_int (uint (rgb_b p) div 2)\<rparr>) buf"
  by (auto simp add: list_eq_iff_nth_eq halve_channel)

subsection \<open>Layer colours\<close>

lemma layer_left_uint:
  fixes layer :: "8 word"
  assumes "8 \<le> layer"
  shows "uint (word_of_int (1 + (uint layer - 8) div 6) :: 8 word) = 1 + (uint layer - 8) div 6"
proof -
  have lo: "8 \<le> uint layer" using assms by (simp add: word_le_def)
  have hi: "uint layer < 256" using uint_bounded [of layer] by simp
  have "0 \<le> 1 + (uint layer - 8) div 6" using lo by simp
  moreover have "1 + (uint layer - 8) div 6 < 256" using hi by simp
  ultimately show ?thesis by (rule uint_of_int_u8)
qed

lemma layer_right_uint:
  fixes layer :: "8 word"
  shows "uint (word_of_int (1 + (uint layer - 8) mod 6) :: 8 word) = 1 + (uint layer - 8) mod 6"
proof -
  have "0 \<le> (uint layer - 8) mod 6" by simp
  moreover have "(uint layer - 8) mod 6 < 6" by simp
  ultimately show ?thesis by (intro uint_of_int_u8) simp_all
qed

lemma layer_right_succ_uint:
  fixes layer :: "8 word"
  shows "uint ((word_of_int (1 + (uint layer - 8) mod 6) :: 8 word) + 1)
           = 2 + (uint layer - 8) mod 6"
proof -
  have a: "0 \<le> (uint layer - 8) mod 6" by simp
  have b: "(uint layer - 8) mod 6 < 6" by simp
  have "uint ((word_of_int (1 + (uint layer - 8) mod 6) :: 8 word) + 1)
      = (uint (word_of_int (1 + (uint layer - 8) mod 6) :: 8 word) + 1) mod 256"
    by (simp only: uint_word_ariths) simp
  also have "\<dots> = (1 + (uint layer - 8) mod 6 + 1) mod 256"
    by (simp only: layer_right_uint)
  also have "\<dots> = 2 + (uint layer - 8) mod 6" using a b by simp
  finally show ?thesis .
qed

text \<open>
  C8. Layers 0 to 7 give \<open>left = right = layer\<close>; for every layer from 8 on the right
  index differs from the left index (it is the cyclic index \<open>1 + (layer - 8) mod 6\<close>,
  moved one ahead whenever the left index is not above it); layers 14 and 20 give the
  pairs (2, 1) and (3, 1), which differ from each other and have \<open>left \<noteq> right\<close>.
\<close>

theorem layer_to_colors_no_collision:
  "(layer < 8 \<longrightarrow> zmk_led_layer_to_colors layer = (layer, layer))
   \<and> (8 \<le> layer \<longrightarrow>
        fst (zmk_led_layer_to_colors layer) \<noteq> snd (zmk_led_layer_to_colors layer)
        \<and> uint (fst (zmk_led_layer_to_colors layer)) = 1 + (uint layer - 8) div 6
        \<and> uint (snd (zmk_led_layer_to_colors layer)) =
            (if 1 + (uint layer - 8) div 6 \<le> 1 + (uint layer - 8) mod 6
             then 2 + (uint layer - 8) mod 6 else 1 + (uint layer - 8) mod 6))
   \<and> zmk_led_layer_to_colors 14 = (2, 1)
   \<and> zmk_led_layer_to_colors 20 = (3, 1)"
proof -
  have low: "layer < 8 \<longrightarrow> zmk_led_layer_to_colors layer = (layer, layer)"
    by (simp add: zmk_led_layer_to_colors_def)
  have high: "fst (zmk_led_layer_to_colors layer) \<noteq> snd (zmk_led_layer_to_colors layer)
        \<and> uint (fst (zmk_led_layer_to_colors layer)) = 1 + (uint layer - 8) div 6
        \<and> uint (snd (zmk_led_layer_to_colors layer)) =
            (if 1 + (uint layer - 8) div 6 \<le> 1 + (uint layer - 8) mod 6
             then 2 + (uint layer - 8) mod 6 else 1 + (uint layer - 8) mod 6)"
    if ge: "8 \<le> layer"
  proof -
    let ?l = "word_of_int (1 + (uint layer - 8) div 6) :: 8 word"
    let ?r = "word_of_int (1 + (uint layer - 8) mod 6) :: 8 word"
    have nlt: "\<not> layer < 8" using ge by simp
    have le_iff: "?l \<le> ?r \<longleftrightarrow> 1 + (uint layer - 8) div 6 \<le> 1 + (uint layer - 8) mod 6"
      by (simp only: word_le_def layer_left_uint [OF ge] layer_right_uint)
    show ?thesis
    proof (cases "?l \<le> ?r")
      case True
      then have eq: "zmk_led_layer_to_colors layer = (?l, ?r + 1)"
        using nlt by (simp add: zmk_led_layer_to_colors_def Let_def)
      have "uint ?l \<noteq> uint (?r + 1)"
      proof -
        have "1 + (uint layer - 8) div 6 \<le> 1 + (uint layer - 8) mod 6"
          using True le_iff by blast
        then have "1 + (uint layer - 8) div 6 \<noteq> 2 + (uint layer - 8) mod 6"
          by linarith
        then show ?thesis
          by (simp only: layer_left_uint [OF ge] layer_right_succ_uint) simp
      qed
      then have "?l \<noteq> ?r + 1" by auto
      then show ?thesis
        using True le_iff eq layer_left_uint [OF ge] layer_right_succ_uint
        by simp
    next
      case False
      then have eq: "zmk_led_layer_to_colors layer = (?l, ?r)"
        using nlt by (simp add: zmk_led_layer_to_colors_def Let_def)
      have "?l \<noteq> ?r" using False by auto
      then show ?thesis
        using False le_iff eq layer_left_uint [OF ge] layer_right_uint
        by simp
    qed
  qed
  have l14: "zmk_led_layer_to_colors 14 = (2, 1)"
    by (simp add: zmk_led_layer_to_colors_def word_le_def)
  have l20: "zmk_led_layer_to_colors 20 = (3, 1)"
    by (simp add: zmk_led_layer_to_colors_def word_le_def)
  from low high l14 l20 show ?thesis by blast
qed

theorem layer_to_colors_no_collision_witness:
  "(3::8 word) < 8 \<and> zmk_led_layer_to_colors 3 = (3, 3)
   \<and> (8::8 word) \<le> 14
   \<and> fst (zmk_led_layer_to_colors 14) \<noteq> snd (zmk_led_layer_to_colors 14)
   \<and> (8::8 word) \<le> 20
   \<and> fst (zmk_led_layer_to_colors 20) \<noteq> snd (zmk_led_layer_to_colors 20)
   \<and> zmk_led_layer_to_colors 14 \<noteq> zmk_led_layer_to_colors 20"
  using layer_to_colors_no_collision [of 3] layer_to_colors_no_collision [of 14]
    layer_to_colors_no_collision [of 20]
  by simp

subsection \<open>The colour setter\<close>

text \<open>
  What \<^verbatim>\<open>zmk_rgb_underglow_set_hsb\<close> does: a hue above 360, a saturation above 100 or
  a brightness above 100 is refused with \<^verbatim>\<open>-ENOTSUP\<close> and nothing is stored; every other
  colour is stored as it is.
\<close>

lemma set_hsb_rejects:
  "hsb_h c > 360 \<or> hsb_s c > 100 \<or> hsb_b c > 100 \<Longrightarrow>
     zmk_rgb_underglow_set_hsb c w = (Inl ENOTSUP, w)"
  by (simp add: zmk_rgb_underglow_set_hsb_def)

lemma set_hsb_accepts:
  "hsb_h c \<le> 360 \<Longrightarrow> hsb_s c \<le> 100 \<Longrightarrow> hsb_b c \<le> 100 \<Longrightarrow>
     zmk_rgb_underglow_set_hsb c w = (Inr (), w\<lparr>state := (state w)\<lparr>color := c\<rparr>\<rparr>)"
  by (auto simp add: zmk_rgb_underglow_set_hsb_def)

text \<open>
  C1. The setter is claimed to refuse every hue above 359, which keeps the stored hue
  inside \<open>[0, 360)\<close>. The comparison in the source is \<^verbatim>\<open>color.h > HUE_MAX\<close> with
  \<^verbatim>\<open>HUE_MAX\<close> = 360: the colour (360, 100, 100) is accepted and stored, and the stored hue
  is then 360.
\<close>

theorem set_hsb_accepts_hue_360:
  "zmk_rgb_underglow_set_hsb \<lparr>hsb_h = 360, hsb_s = 100, hsb_b = 100\<rparr> w
     = (Inr (), w\<lparr>state := (state w)\<lparr>color := \<lparr>hsb_h = 360, hsb_s = 100, hsb_b = 100\<rparr>\<rparr>\<rparr>)
   \<and> uint (hsb_h (color (state (snd (zmk_rgb_underglow_set_hsb
              \<lparr>hsb_h = 360, hsb_s = 100, hsb_b = 100\<rparr> w))))) = 360"
  by (simp add: zmk_rgb_underglow_set_hsb_def)

subsection \<open>Commands without a strip device\<close>

text \<open>
  With \<^verbatim>\<open>led_strip\<close> unset, on, off, toggle, select-effect, cycle-effect, the four
  change commands and the status trigger return \<^verbatim>\<open>-ENODEV\<close> and leave every variable as
  it was.
\<close>

lemma not_ready_commands:
  assumes "\<not> led_strip w"
  shows "zmk_rgb_underglow_on cfg w = (Inl ENODEV, w)"
    and "zmk_rgb_underglow_off cfg w = (Inl ENODEV, w)"
    and "zmk_rgb_underglow_toggle cfg w = (Inl ENODEV, w)"
    and "zmk_rgb_underglow_select_effect cfg effect w = (Inl ENODEV, w)"
    and "zmk_rgb_underglow_cycle_effect cfg direction w = (Inl ENODEV, w)"
    and "zmk_rgb_underglow_change_hue cfg direction w = (Inl ENODEV, w)"
    and "zmk_rgb_underglow_change_sat cfg direction w = (Inl ENODEV, w)"
    and "zmk_rgb_underglow_change_brt cfg direction w = (Inl ENODEV, w)"
    and "zmk_rgb_underglow_change_spd direction w = (Inl ENODEV, w)"
    and "zmk_rgb_underglow_status cfg w = (Inl ENODEV, w)"
  using assms
  by (simp_all add: zmk_rgb_underglow_on_def zmk_rgb_underglow_off_def
      zmk_rgb_underglow_toggle_def zmk_rgb_underglow_select_effect_def
      zmk_rgb_underglow_cycle_effect_def zmk_rgb_underglow_change_hue_def
      zmk_rgb_underglow_change_sat_def zmk_rgb_underglow_change_brt_def
      zmk_rgb_underglow_change_spd_def zmk_rgb_underglow_status_def)

text \<open>
  C9. Every public command is claimed to fail with device-not-ready and to change nothing
  while the strip device is unavailable. \<^verbatim>\<open>zmk_rgb_underglow_set_hsb\<close> has no
  \<^verbatim>\<open>led_strip\<close> test: with the pointer unset it returns 0 and overwrites the stored
  colour.
\<close>

theorem set_hsb_ignores_missing_strip:
  "zmk_rgb_underglow_set_hsb \<lparr>hsb_h = 120, hsb_s = 50, hsb_b = 50\<rparr>
       (sample_underglow\<lparr>led_strip := False\<rparr>)
     = (Inr (), sample_underglow\<lparr>led_strip := False,
           state := (state sample_underglow)\<lparr>color := \<lparr>hsb_h = 120, hsb_s = 50, hsb_b = 50\<rparr>\<rparr>\<rparr>)
   \<and> color (state (snd (zmk_rgb_underglow_set_hsb \<lparr>hsb_h = 120, hsb_s = 50, hsb_b = 50\<rparr>
       (sample_underglow\<lparr>led_strip := False\<rparr>))))
     \<noteq> color (state (sample_underglow\<lparr>led_strip := False\<rparr>))"
  by (simp add: zmk_rgb_underglow_set_hsb_def sample_underglow_def)

subsection \<open>Effect selection\<close>

text \<open>
  C6. \<^verbatim>\<open>zmk_rgb_underglow_select_effect\<close> refuses every index below 0 or above 6 (so
  -1 and 7) and changes nothing; the result is \<^verbatim>\<open>-EINVAL\<close> once the strip device is set
  (before that the device test comes first and answers \<^verbatim>\<open>-ENODEV\<close>). For every index
  from 0 to 6, with the strip device set, it succeeds, \<^verbatim>\<open>current_effect\<close> becomes that
  index and \<^verbatim>\<open>animation_step\<close> becomes 0.
\<close>

theorem select_effect_range:
  "(effect < 0 \<or> 7 \<le> effect \<longrightarrow>
      snd (zmk_rgb_underglow_select_effect cfg effect w) = w
    \<and> fst (zmk_rgb_underglow_select_effect cfg effect w)
        = Inl (if led_strip w then EINVAL else ENODEV))
   \<and> (0 \<le> effect \<and> effect < 7 \<and> led_strip w \<longrightarrow>
        fst (zmk_rgb_underglow_select_effect cfg effect w) = Inr ()
      \<and> uint (current_effect (state (snd (zmk_rgb_underglow_select_effect cfg effect w))))
          = effect
      \<and> animation_step (state (snd (zmk_rgb_underglow_select_effect cfg effect w))) = 0)"
proof -
  have small: "uint (word_of_int effect :: 8 word) = effect" if "0 \<le> effect" "effect < 7"
    using that by (intro uint_of_int_u8) simp_all
  have reject: "snd (zmk_rgb_underglow_select_effect cfg effect w) = w
    \<and> fst (zmk_rgb_underglow_select_effect cfg effect w)
        = Inl (if led_strip w then EINVAL else ENODEV)"
    if "effect < 0 \<or> 7 \<le> effect"
    using that
    by (auto simp add: zmk_rgb_underglow_select_effect_def UNDERGLOW_EFFECT_NUMBER_def)
  have accept: "fst (zmk_rgb_underglow_select_effect cfg effect w) = Inr ()
      \<and> uint (current_effect (state (snd (zmk_rgb_underglow_select_effect cfg effect w))))
          = effect
      \<and> animation_step (state (snd (zmk_rgb_underglow_select_effect cfg effect w))) = 0"
    if "0 \<le> effect" "effect < 7" "led_strip w"
    using that small
    by (simp add: zmk_rgb_underglow_select_effect_def UNDERGLOW_EFFECT_NUMBER_def Let_def
        zmk_rgb_underglow_central_send_def call_def)
  from reject accept show ?thesis by blast
qed

theorem select_effect_range_witness:
  "led_strip sample_underglow
   \<and> zmk_rgb_underglow_select_effect sample_config (- 1) sample_underglow
       = (Inl EINVAL, sample_underglow)
   \<and> zmk_rgb_underglow_select_effect sample_config 7 sample_underglow
       = (Inl EINVAL, sample_underglow)
   \<and> fst (zmk_rgb_underglow_select_effect sample_config 6 sample_underglow) = Inr ()
   \<and> uint (current_effect (state (snd
        (zmk_rgb_underglow_select_effect sample_config 6 sample_underglow)))) = 6
   \<and> animation_step (state (snd
        (zmk_rgb_underglow_select_effect sample_config 6 sample_underglow))) = 0"
proof -
  have r: "led_strip sample_underglow" by (simp add: sample_underglow_def)
  show ?thesis
    using r select_effect_range [of "- 1" sample_config sample_underglow]
      select_effect_range [of 7 sample_config sample_underglow]
      select_effect_range [of 6 sample_config sample_underglow]
    by (simp add: prod_eq_iff)
qed

subsection \<open>Peripheral update\<close>

lemma on_grows_calls:
  "led_strip w \<Longrightarrow> length (calls w) < length (calls (snd (zmk_rgb_underglow_on cfg w)))"
  by (simp add: zmk_rgb_underglow_on_def Let_def call_def zmk_rgb_underglow_central_send_def)

lemma off_grows_calls:
  "led_strip w \<Longrightarrow> length (calls w) < length (calls (snd (zmk_rgb_underglow_off cfg w)))"
  by (simp add: zmk_rgb_underglow_off_def Let_def call_def zmk_rgb_underglow_central_send_def)

lemma on_sets_on:
  "led_strip w \<Longrightarrow> on (state (snd (zmk_rgb_underglow_on cfg w)))
     \<and> periph_effect (led_data (snd (zmk_rgb_underglow_on cfg w))) = periph_effect (led_data w)"
  by (simp add: zmk_rgb_underglow_on_def Let_def call_def zmk_rgb_underglow_central_send_def)

lemma off_clears_on:
  "led_strip w \<Longrightarrow> \<not> on (state (snd (zmk_rgb_underglow_off cfg w)))
     \<and> periph_effect (led_data (snd (zmk_rgb_underglow_off cfg w))) = periph_effect (led_data w)"
  by (simp add: zmk_rgb_underglow_off_def Let_def call_def zmk_rgb_underglow_central_send_def)

text \<open>
  C10. With the strip device set, \<^verbatim>\<open>zmk_rgb_underglow_set_periph\<close> returns 0 for every
  record, copies the record's effect byte into \<^verbatim>\<open>current_effect\<close> whatever its value
  (no test against the seven effects), and leaves \<^verbatim>\<open>state.on\<close> equal to the record's on
  flag. When the two flags agree neither \<^verbatim>\<open>zmk_rgb_underglow_on\<close> nor
  \<^verbatim>\<open>zmk_rgb_underglow_off\<close> runs and no outside call is made; when the record asks for
  on and the strip is off the on command runs, in the opposite case the off command runs;
  the call log grows exactly when the flags differ.
\<close>

theorem set_periph_effect_unchecked:
  assumes ready: "led_strip w"
  shows "fst (zmk_rgb_underglow_set_periph cfg p w) = Inr ()
   \<and> current_effect (state (snd (zmk_rgb_underglow_set_periph cfg p w))) = periph_effect p
   \<and> on (state (snd (zmk_rgb_underglow_set_periph cfg p w))) = periph_on p
   \<and> (on (state w) = periph_on p \<longrightarrow>
        snd (zmk_rgb_underglow_set_periph cfg p w)
          = w\<lparr>led_data := p, state := (state w)\<lparr>current_effect := periph_effect p\<rparr>\<rparr>)
   \<and> (\<not> on (state w) \<and> periph_on p \<longrightarrow>
        snd (zmk_rgb_underglow_set_periph cfg p w)
          = (let w' = snd (zmk_rgb_underglow_on cfg (w\<lparr>led_data := p\<rparr>))
             in w'\<lparr>state := (state w')\<lparr>current_effect := periph_effect p\<rparr>\<rparr>))
   \<and> (on (state w) \<and> \<not> periph_on p \<longrightarrow>
        snd (zmk_rgb_underglow_set_periph cfg p w)
          = (let w' = snd (zmk_rgb_underglow_off cfg (w\<lparr>led_data := p\<rparr>))
             in w'\<lparr>state := (state w')\<lparr>current_effect := periph_effect p\<rparr>\<rparr>))
   \<and> (calls (snd (zmk_rgb_underglow_set_periph cfg p w)) = calls w
        \<longleftrightarrow> on (state w) = periph_on p)"
proof -
  let ?w1 = "w\<lparr>led_data := p\<rparr>"
  have r1: "led_strip ?w1" using ready by simp
  note on1 = on_sets_on [OF r1, of cfg] and off1 = off_clears_on [OF r1, of cfg]
  note gon = on_grows_calls [OF r1, of cfg] and goff = off_grows_calls [OF r1, of cfg]
  consider (same) "on (state w) = periph_on p"
    | (turn_on) "\<not> on (state w)" "periph_on p"
    | (turn_off) "on (state w)" "\<not> periph_on p"
    by blast
  then show ?thesis
  proof cases
    case same
    then show ?thesis
      by (auto simp add: zmk_rgb_underglow_set_periph_def Let_def)
  next
    case turn_on
    then show ?thesis
      using on1 gon by (auto simp add: zmk_rgb_underglow_set_periph_def Let_def)
  next
    case turn_off
    then show ?thesis
      using off1 goff by (auto simp add: zmk_rgb_underglow_set_periph_def Let_def)
  qed
qed

theorem set_periph_effect_unchecked_witness:
  "led_strip sample_underglow
   \<and> \<not> on (state sample_underglow)
   \<and> current_effect (state (snd (zmk_rgb_underglow_set_periph sample_config
         \<lparr>periph_layer = 9, periph_indicators = 0, periph_on = True, periph_effect = 200\<rparr>
         sample_underglow))) = 200
   \<and> on (state (snd (zmk_rgb_underglow_set_periph sample_config
         \<lparr>periph_layer = 9, periph_indicators = 0, periph_on = True, periph_effect = 200\<rparr>
         sample_underglow)))
   \<and> calls (snd (zmk_rgb_underglow_set_periph sample_config
         \<lparr>periph_layer = 9, periph_indicators = 0, periph_on = True, periph_effect = 200\<rparr>
         sample_underglow)) \<noteq> calls sample_underglow"
proof -
  let ?p = "\<lparr>periph_layer = 9, periph_indicators = 0, periph_on = True, periph_effect = 200\<rparr>"
  have r: "led_strip sample_underglow" by (simp add: sample_underglow_def)
  have off: "\<not> on (state sample_underglow)" by (simp add: sample_underglow_def)
  note t = set_periph_effect_unchecked [OF r, of sample_config ?p]
  from t have e: "current_effect (state (snd (zmk_rgb_underglow_set_periph sample_config ?p
      sample_underglow))) = periph_effect ?p" by blast
  from t have o: "on (state (snd (zmk_rgb_underglow_set_periph sample_config ?p
      sample_underglow))) = periph_on ?p" by blast
  from t have c: "calls (snd (zmk_rgb_underglow_set_periph sample_config ?p sample_underglow))
      = calls sample_underglow \<longleftrightarrow> on (state sample_underglow) = periph_on ?p" by blast
  from e have e': "current_effect (state (snd (zmk_rgb_underglow_set_periph sample_config ?p
      sample_underglow))) = 200" by simp
  from o have o': "on (state (snd (zmk_rgb_underglow_set_periph sample_config ?p
      sample_underglow)))" by simp
  from c off have c': "calls (snd (zmk_rgb_underglow_set_periph sample_config ?p
      sample_underglow)) \<noteq> calls sample_underglow" by simp
  from r off e' o' c' show ?thesis by blast
qed

subsection \<open>The Breathe effect\<close>

lemma breathe_speed_kept:
  "animation_speed (state (zmk_rgb_underglow_effect_breathe cfg conv w)) = animation_speed (state w)"
  by (simp add: zmk_rgb_underglow_effect_breathe_def Let_def)

lemma breathe_step_word:
  "animation_step (state (zmk_rgb_underglow_effect_breathe cfg conv w))
     = (if (word_of_int (uint (animation_step (state w)) + uint (animation_speed (state w)) * 10)
              :: 16 word) > 2400
        then 0
        else word_of_int (uint (animation_step (state w)) + uint (animation_speed (state w)) * 10))"
  by (simp add: zmk_rgb_underglow_effect_breathe_def Let_def)

lemma breathe_step_next:
  "uint (animation_step (state (zmk_rgb_underglow_effect_breathe cfg conv w)))
     = (if (uint (animation_step (state w)) + uint (animation_speed (state w)) * 10) mod 65536 > 2400
        then 0
        else (uint (animation_step (state w)) + uint (animation_speed (state w)) * 10) mod 65536)"
proof -
  let ?k = "uint (animation_step (state w)) + uint (animation_speed (state w)) * 10"
  have lt: "(word_of_int ?k :: 16 word) > 2400 \<longleftrightarrow> ?k mod 65536 > 2400"
    by (simp only: word_less_def uint_of_int_u16_mod) simp
  show ?thesis
  proof (cases "?k mod 65536 > 2400")
    case True
    with lt have "animation_step (state (zmk_rgb_underglow_effect_breathe cfg conv w)) = 0"
      by (simp only: breathe_step_word if_True)
    with True show ?thesis by simp
  next
    case False
    with lt have "animation_step (state (zmk_rgb_underglow_effect_breathe cfg conv w))
        = word_of_int ?k"
      by (simp only: breathe_step_word if_False)
    with False show ?thesis by (simp only: uint_of_int_u16_mod if_False)
  qed
qed

lemma breathe_pixels:
  "pixels (zmk_rgb_underglow_effect_breathe cfg conv w)
     = replicate (strip_num_pixels cfg) (conv (hsb_scale_zero_max cfg (breathe_hsb (state w))))"
  by (simp add: zmk_rgb_underglow_effect_breathe_def Let_def map_replicate_const)

lemma breathe_ramp:
  assumes "animation_step (state w) = 0" "animation_speed (state w) = 1"
  shows "n \<le> 240 \<Longrightarrow>
     animation_speed (state ((zmk_rgb_underglow_effect_breathe cfg conv ^^ n) w)) = 1
   \<and> uint (animation_step (state ((zmk_rgb_underglow_effect_breathe cfg conv ^^ n) w))) = 10 * int n"
proof (induction n)
  case 0
  then show ?case using assms by simp
next
  case (Suc n)
  then have ih: "animation_speed (state ((zmk_rgb_underglow_effect_breathe cfg conv ^^ n) w)) = 1"
    "uint (animation_step (state ((zmk_rgb_underglow_effect_breathe cfg conv ^^ n) w))) = 10 * int n"
    and n: "n < 240"
    by simp_all
  have bound: "10 * int n + 10 \<le> 2400" using n by simp
  then have m: "(10 * int n + 10) mod 65536 = 10 * int n + 10" by simp
  show ?case
    using bound
    by (simp add: breathe_speed_kept breathe_step_next ih m)
qed

lemma breathe_brightness:
  assumes "animation_step st \<le> 2400"
  shows "uint (hsb_b (breathe_hsb st)) = \<bar>uint (animation_step st) - 1200\<bar> div 12"
proof -
  have hi: "uint (animation_step st) \<le> 2400" using assms by (simp add: word_le_def)
  have lo: "0 \<le> uint (animation_step st)" by simp
  have a: "\<bar>uint (animation_step st) - 1200\<bar> \<le> 1200" using hi lo by linarith
  have "\<bar>uint (animation_step st) - 1200\<bar> div 12 \<le> 1200 div 12"
    using a by (rule zdiv_mono1) simp
  then have b: "\<bar>uint (animation_step st) - 1200\<bar> div 12 < 256" by simp
  have c: "0 \<le> \<bar>uint (animation_step st) - 1200\<bar> div 12"
    by (simp add: pos_imp_zdiv_nonneg_iff)
  have "uint (word_of_int (\<bar>uint (animation_step st) - 1200\<bar> div 12) :: 8 word)
          = \<bar>uint (animation_step st) - 1200\<bar> div 12"
    using c b by (rule uint_of_int_u8)
  then show ?thesis by (simp add: breathe_hsb_def)
qed

text \<open>
  C3, as the code has it. After a Breathe pass every pixel is the conversion of the
  stored colour with brightness \<open>|step - 1200| / 12\<close> (stored in a byte; no truncation
  while the step is at most 2400) under zero-max scaling. The step then grows by
  \<open>speed \<times> 10\<close> modulo 65536 and is set to 0 only when the sum is above 2400, so the
  value 2400 itself is kept for one pass: from step 0 at speed 1 the step is 2400 after
  240 passes and 0 after 241.
\<close>

theorem breathe_tick:
  "pixels (zmk_rgb_underglow_effect_breathe cfg conv w)
     = replicate (strip_num_pixels cfg)
         (conv (hsb_scale_zero_max cfg
            ((color (state w))\<lparr>hsb_b :=
               word_of_int (\<bar>uint (animation_step (state w)) - 1200\<bar> div 12)\<rparr>)))
   \<and> (animation_step (state w) \<le> 2400 \<longrightarrow>
        uint (hsb_b (breathe_hsb (state w))) = \<bar>uint (animation_step (state w)) - 1200\<bar> div 12)
   \<and> uint (animation_step (state (zmk_rgb_underglow_effect_breathe cfg conv w)))
       = (if (uint (animation_step (state w)) + uint (animation_speed (state w)) * 10) mod 65536
               > 2400
          then 0
          else (uint (animation_step (state w)) + uint (animation_speed (state w)) * 10) mod 65536)
   \<and> uint (animation_step (state ((zmk_rgb_underglow_effect_breathe cfg conv ^^ 240)
         (w\<lparr>state := (state w)\<lparr>animation_step := 0, animation_speed := 1\<rparr>\<rparr>)))) = 2400
   \<and> uint (animation_step (state ((zmk_rgb_underglow_effect_breathe cfg conv ^^ 241)
         (w\<lparr>state := (state w)\<lparr>animation_step := 0, animation_speed := 1\<rparr>\<rparr>)))) = 0"
proof -
  let ?B = "zmk_rgb_underglow_effect_breathe cfg conv"
  let ?w0 = "w\<lparr>state := (state w)\<lparr>animation_step := 0, animation_speed := 1\<rparr>\<rparr>"
  have px: "pixels (?B w) = replicate (strip_num_pixels cfg)
         (conv (hsb_scale_zero_max cfg
            ((color (state w))\<lparr>hsb_b :=
               word_of_int (\<bar>uint (animation_step (state w)) - 1200\<bar> div 12)\<rparr>)))"
    using breathe_pixels [of cfg conv w] by (simp only: breathe_hsb_def)
  have s0: "animation_step (state ?w0) = 0" and v0: "animation_speed (state ?w0) = 1"
    by simp_all
  have r240: "animation_speed (state ((?B ^^ 240) ?w0)) = 1
      \<and> uint (animation_step (state ((?B ^^ 240) ?w0))) = 10 * int 240"
    by (rule breathe_ramp [OF s0 v0]) simp
  then have at240: "uint (animation_step (state ((?B ^^ 240) ?w0))) = 2400" by simp
  have "(?B ^^ 241) ?w0 = ?B ((?B ^^ 240) ?w0)"
    by (simp add: eval_nat_numeral)
  then have at241: "uint (animation_step (state ((?B ^^ 241) ?w0))) = 0"
    using r240 by (simp only: breathe_step_next) simp
  from px breathe_brightness [of "state w"] breathe_step_next [of cfg conv w] at240 at241
  show ?thesis by blast
qed

theorem breathe_tick_witness:
  "animation_step (state sample_underglow) \<le> 2400
   \<and> uint (hsb_b (breathe_hsb (state sample_underglow))) = 100
   \<and> uint (animation_step (state
        (zmk_rgb_underglow_effect_breathe sample_config grey_rgb sample_underglow))) = 10"
proof -
  have a: "animation_step (state sample_underglow) \<le> 2400"
    by (simp add: sample_underglow_def)
  have s: "uint (animation_step (state sample_underglow)) = 0"
    "uint (animation_speed (state sample_underglow)) = 1"
    by (simp_all add: sample_underglow_def)
  note t = breathe_tick [of sample_config grey_rgb sample_underglow]
  from t a have "uint (hsb_b (breathe_hsb (state sample_underglow)))
      = \<bar>uint (animation_step (state sample_underglow)) - 1200\<bar> div 12" by blast
  then have b: "uint (hsb_b (breathe_hsb (state sample_underglow))) = 100"
    by (simp add: s)
  from t have "uint (animation_step (state
        (zmk_rgb_underglow_effect_breathe sample_config grey_rgb sample_underglow)))
       = (if (uint (animation_step (state sample_underglow))
               + uint (animation_speed (state sample_underglow)) * 10) mod 65536 > 2400
          then 0
          else (uint (animation_step (state sample_underglow))
               + uint (animation_speed (state sample_underglow)) * 10) mod 65536)" by blast
  then have c: "uint (animation_step (state
        (zmk_rgb_underglow_effect_breathe sample_config grey_rgb sample_underglow))) = 10"
    by (simp add: s)
  from a b c show ?thesis by blast
qed

text \<open>
  C3 as claimed (the step wraps to 0 at 2400, so it is 0 again after 240 passes at
  speed 1) fails: after 240 passes from step 0 the step is 2400.
\<close>

theorem breathe_240_ticks_counterexample:
  "animation_step (state sample_underglow) = 0
   \<and> animation_speed (state sample_underglow) = 1
   \<and> animation_step (state ((zmk_rgb_underglow_effect_breathe sample_config grey_rgb ^^ 240)
        sample_underglow)) = 2400
   \<and> animation_step (state ((zmk_rgb_underglow_effect_breathe sample_config grey_rgb ^^ 240)
        sample_underglow)) \<noteq> 0"
proof -
  have s0: "animation_step (state sample_underglow) = 0"
    and v0: "animation_speed (state sample_underglow) = 1"
    by (simp_all add: sample_underglow_def)
  have "animation_speed (state ((zmk_rgb_underglow_effect_breathe sample_config grey_rgb ^^ 240)
        sample_underglow)) = 1
      \<and> uint (animation_step (state ((zmk_rgb_underglow_effect_breathe sample_config grey_rgb ^^ 240)
        sample_underglow))) = 10 * int 240"
    by (rule breathe_ramp [OF s0 v0]) simp
  then have u: "uint (animation_step (state ((zmk_rgb_underglow_effect_breathe sample_config
        grey_rgb ^^ 240) sample_underglow))) = uint (2400 :: 16 word)" by simp
  then have e: "animation_step (state ((zmk_rgb_underglow_effect_breathe sample_config
        grey_rgb ^^ 240) sample_underglow)) = 2400"
    by (simp only: word_uint_eq_iff)
  then have "animation_step (state ((zmk_rgb_underglow_effect_breathe sample_config
        grey_rgb ^^ 240) sample_underglow)) \<noteq> 0" by simp
  with s0 v0 e show ?thesis by blast
qed

subsection \<open>Compositor\<close>

lemma length_led_buffer_blend: "length (led_buffer_blend n blend E S) = n"
  by (simp add: led_buffer_blend_def Let_def)

lemma blend_channel_uint:
  fixes s e :: "8 word"
  assumes "0 < w" "w < 256"
  shows "uint (blend_channel (word_of_int w) (word_of_int (256 - w)) s e)
           = (uint s * w) div 256 + (uint e * (256 - w)) div 256"
proof -
  have wl: "uint (word_of_int w :: 16 word) = w"
    using assms by (intro uint_of_int_u16) simp_all
  have wr: "uint (word_of_int (256 - w) :: 16 word) = 256 - w"
    using assms by (intro uint_of_int_u16) simp_all
  have s0: "0 \<le> uint s" and e0: "0 \<le> uint e" by simp_all
  have s1: "uint s \<le> 255" using uint_bounded [of s] by simp
  have e1: "uint e \<le> 255" using uint_bounded [of e] by simp
  have sw: "uint s * w \<le> 255 * w"
    using s1 assms by (intro mult_right_mono) simp_all
  have ew: "uint e * (256 - w) \<le> 255 * (256 - w)"
    using e1 assms by (intro mult_right_mono) simp_all
  have sw0: "0 \<le> uint s * w" using s0 assms by simp
  have ew0: "0 \<le> uint e * (256 - w)" using e0 assms by simp
  have "(uint s * w) div 256 + (uint e * (256 - w)) div 256
          \<le> (uint s * w + uint e * (256 - w)) div 256"
    by (rule div_sum_le)
  also have "\<dots> \<le> (255 * 256) div 256"
    using sw ew by (intro zdiv_mono1) simp_all
  finally have hi: "(uint s * w) div 256 + (uint e * (256 - w)) div 256 < 256" by simp
  have lo: "0 \<le> (uint s * w) div 256 + (uint e * (256 - w)) div 256"
    using sw0 ew0 by (simp add: pos_imp_zdiv_nonneg_iff)
  have "uint (blend_channel (word_of_int w) (word_of_int (256 - w)) s e)
      = uint (word_of_int ((uint s * w) div 256 + (uint e * (256 - w)) div 256) :: 8 word)"
    by (simp only: blend_channel_def wl wr drop_bit_eq_div) simp
  also have "\<dots> = (uint s * w) div 256 + (uint e * (256 - w)) div 256"
    using lo hi by (rule uint_of_int_u8)
  finally show ?thesis .
qed

lemma blend_loop_nth:
  assumes "0 < w" "w < 256" "i < n"
  shows "led_buffer_blend n w E S ! i
     = \<lparr>rgb_r = blend_channel (word_of_int w) (word_of_int (256 - w)) (rgb_r (S ! i)) (rgb_r (E ! i)),
        rgb_g = blend_channel (word_of_int w) (word_of_int (256 - w)) (rgb_g (S ! i)) (rgb_g (E ! i)),
        rgb_b = blend_channel (word_of_int w) (word_of_int (256 - w)) (rgb_b (S ! i)) (rgb_b (E ! i))\<rparr>"
  using assms by (simp add: led_buffer_blend_def Let_def)

text \<open>
  C4, as the code has it. For a blend weight \<open>w\<close> strictly between 0 and 256 each
  channel of \<^verbatim>\<open>led_buffer[i]\<close> is \<open>((S[i]\<cdot>w) >> 8) + ((E[i]\<cdot>(256 - w)) >> 8)\<close>: the two
  products are shifted separately and then added (the sum fits the byte). With a battery
  level of at least 20 this buffer is what goes to the strip.
\<close>

theorem blend_shifts_each_product:
  assumes "0 < w" "w < 256" "i < n"
  shows "uint (rgb_r (led_buffer_blend n w E S ! i))
           = drop_bit 8 (uint (rgb_r (S ! i)) * w) + drop_bit 8 (uint (rgb_r (E ! i)) * (256 - w))
       \<and> uint (rgb_g (led_buffer_blend n w E S ! i))
           = drop_bit 8 (uint (rgb_g (S ! i)) * w) + drop_bit 8 (uint (rgb_g (E ! i)) * (256 - w))
       \<and> uint (rgb_b (led_buffer_blend n w E S ! i))
           = drop_bit 8 (uint (rgb_b (S ! i)) * w) + drop_bit 8 (uint (rgb_b (E ! i)) * (256 - w))
       \<and> (20 \<le> bat \<longrightarrow> strip_buffer n bat w E S = led_buffer_blend n w E S)"
proof -
  have nz: "w \<noteq> 0" using assms by simp
  have pass: "20 \<le> bat \<longrightarrow> strip_buffer n bat w E S = led_buffer_blend n w E S"
    using nz by (simp add: strip_buffer_def led_buffer_dim_def)
  show ?thesis
    using pass
    by (simp only: blend_loop_nth [OF assms] led_rgb.simps
        blend_channel_uint [OF assms(1,2)] drop_bit_eq_div) simp
qed

theorem blend_shifts_each_product_witness:
  "(0::int) < 128 \<and> (128::int) < 256 \<and> (0::nat) < 1 \<and> (20::int) \<le> 100
   \<and> uint (rgb_r (strip_buffer 1 100 128 [\<lparr>rgb_r = 200, rgb_g = 100, rgb_b = 50\<rparr>]
                     [\<lparr>rgb_r = 0, rgb_g = 0, rgb_b = 255\<rparr>] ! 0)) = 100
   \<and> uint (rgb_g (strip_buffer 1 100 128 [\<lparr>rgb_r = 200, rgb_g = 100, rgb_b = 50\<rparr>]
                     [\<lparr>rgb_r = 0, rgb_g = 0, rgb_b = 255\<rparr>] ! 0)) = 50
   \<and> uint (rgb_b (strip_buffer 1 100 128 [\<lparr>rgb_r = 200, rgb_g = 100, rgb_b = 50\<rparr>]
                     [\<lparr>rgb_r = 0, rgb_g = 0, rgb_b = 255\<rparr>] ! 0)) = 152"
  using blend_shifts_each_product [where w = 128 and i = 0 and n = 1 and bat = 100
      and E = "[\<lparr>rgb_r = 200, rgb_g = 100, rgb_b = 50\<rparr>]"
      and S = "[\<lparr>rgb_r = 0, rgb_g = 0, rgb_b = 255\<rparr>]"]
  by (simp add: drop_bit_eq_div)

text \<open>
  C4 as claimed, \<open>(S[i]\<cdot>w + E[i]\<cdot>(256 - w)) >> 8\<close> with one shift after the sum, fails:
  for \<open>S[i] = E[i] = 1\<close> and \<open>w = 128\<close> the formula gives 1 and the code writes 0.
\<close>

theorem blend_single_shift_counterexample:
  "uint (rgb_r (strip_buffer 1 100 128 [\<lparr>rgb_r = 1, rgb_g = 1, rgb_b = 1\<rparr>]
                   [\<lparr>rgb_r = 1, rgb_g = 1, rgb_b = 1\<rparr>] ! 0)) = 0
   \<and> spec_blend_channel 1 1 128 = 1"
  by (simp add: strip_buffer_def led_buffer_dim_def led_buffer_blend_def blend_channel_def
      spec_blend_channel_def drop_bit_eq_div)

text \<open>
  The strip buffer at the two ends of the blend and under the three battery ranges, for
  any pair of buffers and any weight; and what \<^verbatim>\<open>zmk_led_write_pixels\<close> sends: the strip
  buffer for the weight that \<^verbatim>\<open>zmk_led_generate_status\<close> returned (0 without an active
  overlay), the effect buffer and the freshly painted status buffer.
\<close>

lemma strip_buffer_endpoints:
  assumes "length E = n" "length S = n"
  shows "led_buffer_blend n 0 E S = E
       \<and> led_buffer_blend n 256 E S = S
       \<and> (20 \<le> bat \<longrightarrow> strip_buffer n bat 0 E S = E \<and> strip_buffer n bat 256 E S = S)"
  using copy_loop [OF assms(1)] copy_loop [OF assms(2)]
  by (simp add: led_buffer_blend_def strip_buffer_def led_buffer_dim_def)

lemma strip_buffer_dimming:
  assumes "length E = n"
  shows "bat < 10 \<Longrightarrow>
           strip_buffer n bat blend E S = replicate n \<lparr>rgb_r = 0, rgb_g = 0, rgb_b = 0\<rparr>"
    and "10 \<le> bat \<Longrightarrow> bat < 20 \<Longrightarrow>
           strip_buffer n bat blend E S
             = map (\<lambda>p. \<lparr>rgb_r = word_of_int (uint (rgb_r p) div 2),
                          rgb_g = word_of_int (uint (rgb_g p) div 2),
                          rgb_b = word_of_int (uint (rgb_b p) div 2)\<rparr>)
                 (led_buffer_blend n blend E S)"
    and "20 \<le> bat \<Longrightarrow> strip_buffer n bat blend E S = led_buffer_blend n blend E S"
proof -
  show "strip_buffer n bat blend E S = replicate n \<lparr>rgb_r = 0, rgb_g = 0, rgb_b = 0\<rparr>"
    if "bat < 10"
    using that by (simp add: strip_buffer_def led_buffer_dim_def)
  show "strip_buffer n bat blend E S
              = map (\<lambda>p. \<lparr>rgb_r = word_of_int (uint (rgb_r p) div 2),
                           rgb_g = word_of_int (uint (rgb_g p) div 2),
                           rgb_b = word_of_int (uint (rgb_b p) div 2)\<rparr>)
                  (led_buffer_blend n blend E S)"
    if "10 \<le> bat" "bat < 20"
    using that dim_loop [OF length_led_buffer_blend, of n blend E S]
    by (simp add: strip_buffer_def led_buffer_dim_def)
  show "strip_buffer n bat blend E S = led_buffer_blend n blend E S" if "20 \<le> bat"
  proof (cases "blend = 0")
    case True
    then show ?thesis
      using that copy_loop [OF assms]
      by (simp add: strip_buffer_def led_buffer_blend_def)
  next
    case False
    then show ?thesis
      using that by (simp add: strip_buffer_def led_buffer_dim_def)
  qed
qed

lemma write_pixels_sends_strip_buffer:
  "last (calls (zmk_led_write_pixels cfg bat painted w))
     = Led_strip_update_rgb
         (strip_buffer (strip_num_pixels cfg) bat
            (if status_active (state w) then fst (zmk_led_generate_status cfg painted w) else 0)
            (pixels w)
            (if status_active (state w) \<and> indicators_enabled cfg then painted
             else status_pixels w))"
  by (simp add: zmk_led_write_pixels_def zmk_led_generate_status_def Let_def call_def)

lemma write_pixels_idle:
  assumes "\<not> status_active (state w)" "20 \<le> bat"
  shows "zmk_led_write_pixels cfg bat painted w = call (Led_strip_update_rgb (pixels w)) w"
  using assms by (simp add: zmk_led_write_pixels_def strip_buffer_def)

lemma write_pixels_plateau:
  assumes "indicators_enabled cfg" "status_active (state w)"
    "20 \<le> status_animation_step (state w)" "status_animation_step (state w) < 320"
    "length painted = strip_num_pixels cfg" "20 \<le> bat"
  shows "last (calls (zmk_led_write_pixels cfg bat painted w)) = Led_strip_update_rgb painted"
proof -
  have s: "20 \<le> uint (status_animation_step (state w))"
    "uint (status_animation_step (state w)) < 320"
    using assms(3,4) by (simp_all add: word_le_def word_less_def)
  have b: "strip_buffer (strip_num_pixels cfg) bat 256 (pixels w) painted = painted"
    using assms(5,6) copy_loop [of painted "strip_num_pixels cfg"]
    by (simp add: strip_buffer_def led_buffer_blend_def led_buffer_dim_def)
  show ?thesis
    using assms(1,2) s b
    by (simp add: zmk_led_write_pixels_def zmk_led_generate_status_def Let_def call_def)
qed

text \<open>
  C5. For effect and status buffers of the strip's length, the blend with weight 0 is
  the effect buffer and the blend with weight 256 is the status buffer, channel for
  channel. With a battery level of at least 20 this is what \<^verbatim>\<open>zmk_led_write_pixels\<close>
  sends to the strip: the effect buffer \<^verbatim>\<open>pixels\<close> when the weight of the pass is 0 (in
  particular without an active overlay), and the painted status buffer when the weight
  of the pass is 256 (in particular with the counter from 20 to 319).
\<close>

theorem blend_endpoints:
  assumes "length E = n" "length S = n" "length painted = strip_num_pixels cfg"
  shows "led_buffer_blend n 0 E S = E
       \<and> led_buffer_blend n 256 E S = S
       \<and> (20 \<le> bat \<longrightarrow>
            strip_buffer n bat 0 E S = E \<and> strip_buffer n bat 256 E S = S
          \<and> ((if status_active (state w) then fst (zmk_led_generate_status cfg painted w) else 0) = 0 \<longrightarrow>
               last (calls (zmk_led_write_pixels cfg bat painted w)) = Led_strip_update_rgb (pixels w))
          \<and> ((if status_active (state w) then fst (zmk_led_generate_status cfg painted w) else 0) = 256 \<longrightarrow>
               last (calls (zmk_led_write_pixels cfg bat painted w)) = Led_strip_update_rgb painted)
          \<and> (\<not> status_active (state w) \<longrightarrow>
               last (calls (zmk_led_write_pixels cfg bat painted w)) = Led_strip_update_rgb (pixels w))
          \<and> (indicators_enabled cfg \<and> status_active (state w)
               \<and> 20 \<le> status_animation_step (state w)
               \<and> status_animation_step (state w) < 320 \<longrightarrow>
               last (calls (zmk_led_write_pixels cfg bat painted w)) = Led_strip_update_rgb painted))"
proof -
  note base = strip_buffer_endpoints [OF assms(1,2), of bat]
  note sent = write_pixels_sends_strip_buffer [of cfg bat painted w]
  have zero: "last (calls (zmk_led_write_pixels cfg bat painted w)) = Led_strip_update_rgb (pixels w)"
    if "20 \<le> bat" "(if status_active (state w) then fst (zmk_led_generate_status cfg painted w) else 0) = 0"
    using that sent by (simp add: strip_buffer_def)
  have full: "last (calls (zmk_led_write_pixels cfg bat painted w)) = Led_strip_update_rgb painted"
    if b: "20 \<le> bat" and w256: "(if status_active (state w) then fst (zmk_led_generate_status cfg painted w) else 0) = 256"
  proof -
    have act: "status_active (state w)" using w256 by (auto split: if_splits)
    have en: "indicators_enabled cfg"
      using w256 act by (auto simp add: zmk_led_generate_status_def split: if_splits)
    have "strip_buffer (strip_num_pixels cfg) bat 256 (pixels w) painted = painted"
      using b assms(3) copy_loop [of painted "strip_num_pixels cfg"]
      by (simp add: strip_buffer_def led_buffer_blend_def led_buffer_dim_def)
    then show ?thesis using sent w256 act en by simp
  qed
  have idle: "last (calls (zmk_led_write_pixels cfg bat painted w)) = Led_strip_update_rgb (pixels w)"
    if "20 \<le> bat" "\<not> status_active (state w)"
    using that zero by simp
  have plateau: "last (calls (zmk_led_write_pixels cfg bat painted w)) = Led_strip_update_rgb painted"
    if "20 \<le> bat" "indicators_enabled cfg" "status_active (state w)"
      "20 \<le> status_animation_step (state w)" "status_animation_step (state w) < 320"
    using write_pixels_plateau [OF that(2,3,4,5) assms(3) that(1)] .
  from base zero full idle plateau show ?thesis by blast
qed

theorem blend_endpoints_witness:
  "length (pixels sample_idle) = 3 \<and> length sample_painted = 3
   \<and> length sample_painted = strip_num_pixels sample_config
   \<and> (20::int) \<le> 20
   \<and> \<not> status_active (state sample_idle)
   \<and> last (calls (zmk_led_write_pixels sample_config 20 sample_painted sample_idle))
       = Led_strip_update_rgb (pixels sample_idle)
   \<and> fst (zmk_led_generate_status sample_config sample_painted sample_plateau) = 256
   \<and> last (calls (zmk_led_write_pixels sample_config 20 sample_painted sample_plateau))
       = Led_strip_update_rgb sample_painted
   \<and> pixels sample_idle \<noteq> sample_painted"
proof -
  have l1: "length (pixels sample_idle) = 3" and l2: "length sample_painted = 3"
    and l3: "length sample_painted = strip_num_pixels sample_config"
    by (simp_all add: sample_idle_def sample_painted_def sample_config_def)
  have idle: "\<not> status_active (state sample_idle)"
    by (simp add: sample_idle_def sample_underglow_def)
  have act: "status_active (state sample_plateau)"
    by (simp add: sample_plateau_def)
  have w256: "fst (zmk_led_generate_status sample_config sample_painted sample_plateau) = 256"
    by (simp add: zmk_led_generate_status_def sample_plateau_def sample_idle_def
        sample_underglow_def sample_config_def Let_def)
  have ne: "pixels sample_idle \<noteq> sample_painted"
    by (simp add: sample_idle_def sample_painted_def)
  have b: "(20::int) \<le> 20" by simp
  note t1 = blend_endpoints [OF l1 l2 l3, of 20 sample_idle]
  note t2 = blend_endpoints [OF l1 l2 l3, of 20 sample_plateau]
  from t1 b idle have s1: "last (calls (zmk_led_write_pixels sample_config 20 sample_painted
      sample_idle)) = Led_strip_update_rgb (pixels sample_idle)" by blast
  from t2 b act w256 have s2: "last (calls (zmk_led_write_pixels sample_config 20 sample_painted
      sample_plateau)) = Led_strip_update_rgb sample_painted" by simp
  from l1 l2 l3 b idle s1 w256 s2 ne show ?thesis by blast
qed

text \<open>
  C2. Whatever the effect buffer, the status buffer and the blend weight, the dimming
  comes last. Below 10 percent the buffer \<^verbatim>\<open>zmk_led_write_pixels\<close> sends to the strip is
  all zero, from any state. From 10 to 19 percent it is the blend of \<^verbatim>\<open>pixels\<close> and the
  status buffer at the weight of the pass, with every channel halved. From 20 percent on
  it is that blend itself. The same three cases hold for the strip buffer at any weight
  and any pair of buffers.
\<close>

theorem battery_dimming_last:
  assumes "length E = n" "length (pixels w) = strip_num_pixels cfg"
  shows "(bat < 10 \<longrightarrow>
            strip_buffer n bat blend E S = replicate n \<lparr>rgb_r = 0, rgb_g = 0, rgb_b = 0\<rparr>
          \<and> last (calls (zmk_led_write_pixels cfg bat painted w))
              = Led_strip_update_rgb
                  (replicate (strip_num_pixels cfg) \<lparr>rgb_r = 0, rgb_g = 0, rgb_b = 0\<rparr>))
       \<and> (10 \<le> bat \<and> bat < 20 \<longrightarrow>
            strip_buffer n bat blend E S
              = map (\<lambda>p. \<lparr>rgb_r = word_of_int (uint (rgb_r p) div 2),
                           rgb_g = word_of_int (uint (rgb_g p) div 2),
                           rgb_b = word_of_int (uint (rgb_b p) div 2)\<rparr>)
                  (led_buffer_blend n blend E S)
          \<and> last (calls (zmk_led_write_pixels cfg bat painted w))
              = Led_strip_update_rgb
                  (map (\<lambda>p. \<lparr>rgb_r = word_of_int (uint (rgb_r p) div 2),
                           rgb_g = word_of_int (uint (rgb_g p) div 2),
                           rgb_b = word_of_int (uint (rgb_b p) div 2)\<rparr>)
                     (led_buffer_blend (strip_num_pixels cfg)
                        (if status_active (state w) then fst (zmk_led_generate_status cfg painted w) else 0)
                        (pixels w)
                        (if status_active (state w) \<and> indicators_enabled cfg then painted else status_pixels w))))
       \<and> (20 \<le> bat \<longrightarrow>
            strip_buffer n bat blend E S = led_buffer_blend n blend E S
          \<and> last (calls (zmk_led_write_pixels cfg bat painted w))
              = Led_strip_update_rgb
                  (led_buffer_blend (strip_num_pixels cfg)
                     (if status_active (state w) then fst (zmk_led_generate_status cfg painted w) else 0)
                     (pixels w)
                     (if status_active (state w) \<and> indicators_enabled cfg then painted else status_pixels w)))"
proof -
  note sent = write_pixels_sends_strip_buffer [of cfg bat painted w]
  note any = strip_buffer_dimming [OF assms(1), of bat blend S]
  note own = strip_buffer_dimming [OF assms(2), of bat
      "(if status_active (state w) then fst (zmk_led_generate_status cfg painted w) else 0)"
      "(if status_active (state w) \<and> indicators_enabled cfg then painted else status_pixels w)"]
  have dark: "bat < 10 \<longrightarrow>
            strip_buffer n bat blend E S = replicate n \<lparr>rgb_r = 0, rgb_g = 0, rgb_b = 0\<rparr>
          \<and> last (calls (zmk_led_write_pixels cfg bat painted w))
              = Led_strip_update_rgb
                  (replicate (strip_num_pixels cfg) \<lparr>rgb_r = 0, rgb_g = 0, rgb_b = 0\<rparr>)"
    using any(1) own(1) sent by simp
  have half: "10 \<le> bat \<and> bat < 20 \<longrightarrow>
            strip_buffer n bat blend E S
              = map (\<lambda>p. \<lparr>rgb_r = word_of_int (uint (rgb_r p) div 2),
                           rgb_g = word_of_int (uint (rgb_g p) div 2),
                           rgb_b = word_of_int (uint (rgb_b p) div 2)\<rparr>)
                  (led_buffer_blend n blend E S)
          \<and> last (calls (zmk_led_write_pixels cfg bat painted w))
              = Led_strip_update_rgb
                  (map (\<lambda>p. \<lparr>rgb_r = word_of_int (uint (rgb_r p) div 2),
                           rgb_g = word_of_int (uint (rgb_g p) div 2),
                           rgb_b = word_of_int (uint (rgb_b p) div 2)\<rparr>)
                     (led_buffer_blend (strip_num_pixels cfg)
                        (if status_active (state w) then fst (zmk_led_generate_status cfg painted w) else 0)
                        (pixels w)
                        (if status_active (state w) \<and> indicators_enabled cfg then painted else status_pixels w)))"
    using any(2) own(2) sent by simp
  have full: "20 \<le> bat \<longrightarrow>
            strip_buffer n bat blend E S = led_buffer_blend n blend E S
          \<and> last (calls (zmk_led_write_pixels cfg bat painted w))
              = Led_strip_update_rgb
                  (led_buffer_blend (strip_num_pixels cfg)
                     (if status_active (state w) then fst (zmk_led_generate_status cfg painted w) else 0)
                     (pixels w)
                     (if status_active (state w) \<and> indicators_enabled cfg then painted else status_pixels w))"
    using any(3) own(3) sent by simp
  from dark half full show ?thesis by blast
qed

theorem battery_dimming_last_witness:
  "length (pixels sample_fading) = 3
   \<and> length (pixels sample_fading) = strip_num_pixels sample_config
   \<and> fst (zmk_led_generate_status sample_config sample_painted sample_fading) = 128
   \<and> last (calls (zmk_led_write_pixels sample_config 9 sample_painted sample_fading))
       = Led_strip_update_rgb [\<lparr>rgb_r = 0, rgb_g = 0, rgb_b = 0\<rparr>,
            \<lparr>rgb_r = 0, rgb_g = 0, rgb_b = 0\<rparr>, \<lparr>rgb_r = 0, rgb_g = 0, rgb_b = 0\<rparr>]
   \<and> last (calls (zmk_led_write_pixels sample_config 19 sample_painted sample_fading))
       = Led_strip_update_rgb [\<lparr>rgb_r = 50, rgb_g = 25, rgb_b = 76\<rparr>,
            \<lparr>rgb_r = 50, rgb_g = 25, rgb_b = 76\<rparr>, \<lparr>rgb_r = 50, rgb_g = 25, rgb_b = 76\<rparr>]
   \<and> last (calls (zmk_led_write_pixels sample_config 20 sample_painted sample_fading))
       = Led_strip_update_rgb [\<lparr>rgb_r = 100, rgb_g = 50, rgb_b = 152\<rparr>,
            \<lparr>rgb_r = 100, rgb_g = 50, rgb_b = 152\<rparr>, \<lparr>rgb_r = 100, rgb_g = 50, rgb_b = 152\<rparr>]"
proof -
  have l1: "length (pixels sample_fading) = 3"
    and l2: "length (pixels sample_fading) = strip_num_pixels sample_config"
    by (simp_all add: sample_fading_def sample_idle_def sample_config_def)
  have act: "status_active (state sample_fading)"
    and en: "indicators_enabled sample_config"
    and n3: "strip_num_pixels sample_config = 3"
    and px: "pixels sample_fading = [\<lparr>rgb_r = 200, rgb_g = 100, rgb_b = 50\<rparr>,
        \<lparr>rgb_r = 200, rgb_g = 100, rgb_b = 50\<rparr>, \<lparr>rgb_r = 200, rgb_g = 100, rgb_b = 50\<rparr>]"
    by (simp_all add: sample_fading_def sample_idle_def sample_config_def)
  have w128: "fst (zmk_led_generate_status sample_config sample_painted sample_fading) = 128"
    by (simp add: zmk_led_generate_status_def sample_fading_def sample_idle_def
        sample_underglow_def sample_config_def Let_def)
  have bl: "led_buffer_blend 3 128 [\<lparr>rgb_r = 200, rgb_g = 100, rgb_b = 50\<rparr>,
        \<lparr>rgb_r = 200, rgb_g = 100, rgb_b = 50\<rparr>, \<lparr>rgb_r = 200, rgb_g = 100, rgb_b = 50\<rparr>]
        sample_painted
      = [\<lparr>rgb_r = 100, rgb_g = 50, rgb_b = 152\<rparr>,
            \<lparr>rgb_r = 100, rgb_g = 50, rgb_b = 152\<rparr>, \<lparr>rgb_r = 100, rgb_g = 50, rgb_b = 152\<rparr>]"
  proof -
    have u: "[0..<3] = [0, 1, 2::nat]" by (simp add: eval_nat_numeral)
    show ?thesis
      by (simp add: led_buffer_blend_def blend_channel_def drop_bit_eq_div sample_painted_def u)
  qed
  note t9 = battery_dimming_last [OF l1 l2, of 9 128 sample_painted sample_painted]
  note t19 = battery_dimming_last [OF l1 l2, of 19 128 sample_painted sample_painted]
  note t20 = battery_dimming_last [OF l1 l2, of 20 128 sample_painted sample_painted]
  from t9 have s9: "last (calls (zmk_led_write_pixels sample_config 9 sample_painted
      sample_fading)) = Led_strip_update_rgb [\<lparr>rgb_r = 0, rgb_g = 0, rgb_b = 0\<rparr>,
            \<lparr>rgb_r = 0, rgb_g = 0, rgb_b = 0\<rparr>, \<lparr>rgb_r = 0, rgb_g = 0, rgb_b = 0\<rparr>]"
    by (simp add: n3 eval_nat_numeral)
  from t19 have s19: "last (calls (zmk_led_write_pixels sample_config 19 sample_painted
      sample_fading)) = Led_strip_update_rgb [\<lparr>rgb_r = 50, rgb_g = 25, rgb_b = 76\<rparr>,
            \<lparr>rgb_r = 50, rgb_g = 25, rgb_b = 76\<rparr>, \<lparr>rgb_r = 50, rgb_g = 25, rgb_b = 76\<rparr>]"
    by (simp add: act en n3 px w128 bl)
  from t20 have s20: "last (calls (zmk_led_write_pixels sample_config 20 sample_painted
      sample_fading)) = Led_strip_update_rgb [\<lparr>rgb_r = 100, rgb_g = 50, rgb_b = 152\<rparr>,
            \<lparr>rgb_r = 100, rgb_g = 50, rgb_b = 152\<rparr>, \<lparr>rgb_r = 100, rgb_g = 50, rgb_b = 152\<rparr>]"
    by (simp add: act en n3 px w128 bl)
  from l1 l2 w128 s9 s19 s20 show ?thesis by blast
qed

subsection \<open>Status overlay envelope\<close>

text \<open>
  With the indicators compiled in, the weight returned by \<^verbatim>\<open>zmk_led_generate_status\<close>
  lies in \<open>[0, 256]\<close> and follows three linear phases: \<open>step \<times> 256 / 20\<close> for the first
  20 passes, 256 up to pass 320, \<open>256 - (step - 320) \<times> 256 / 80\<close> up to pass 400. While
  the counter is below 400 a pass of \<^verbatim>\<open>zmk_led_write_pixels\<close> keeps the overlay active
  and adds one to the counter; from counter value 0 the counter equals the number of
  passes for the first 400 passes.
\<close>

lemma status_blend_range:
  "0 \<le> fst (zmk_led_generate_status cfg painted w)
   \<and> fst (zmk_led_generate_status cfg painted w) \<le> 256"
proof (cases "indicators_enabled cfg")
  case False
  then show ?thesis by (simp add: zmk_led_generate_status_def)
next
  case True
  let ?s = "uint (status_animation_step (state w))"
  have nn: "0 \<le> ?s" by simp
  have fade_in: "0 \<le> (?s * 256) div 20 \<and> (?s * 256) div 20 \<le> 256" if "?s < 20"
  proof -
    have "(?s * 256) div 20 \<le> (20 * 256) div 20"
      using that by (intro zdiv_mono1) simp_all
    then show ?thesis using nn by (simp add: pos_imp_zdiv_nonneg_iff)
  qed
  have fade_out: "0 \<le> 256 - ((?s - 320) * 256) div 80 \<and> 256 - ((?s - 320) * 256) div 80 \<le> 256"
    if "320 \<le> ?s" "?s < 400"
  proof -
    have "((?s - 320) * 256) div 80 \<le> (80 * 256) div 80"
      using that by (intro zdiv_mono1) simp_all
    moreover have "0 \<le> ((?s - 320) * 256) div 80"
      using that by (simp add: pos_imp_zdiv_nonneg_iff)
    ultimately show ?thesis by simp
  qed
  show ?thesis
    using True fade_in fade_out
    by (simp add: zmk_led_generate_status_def Let_def)
qed

lemma status_blend_phases:
  assumes "indicators_enabled cfg"
  shows "fst (zmk_led_generate_status cfg painted w)
     = (let step = uint (status_animation_step (state w))
        in if step < 20 then (step * 256) div 20
           else if step < 320 then 256
           else if step < 400 then 256 - ((step - 320) * 256) div 80
           else 0)"
  using assms by (simp add: zmk_led_generate_status_def Let_def)

lemma status_tick_running:
  assumes "indicators_enabled cfg" "status_active (state w)"
    "status_animation_step (state w) < 400"
  shows "status_active (state (zmk_led_write_pixels cfg bat painted w))
       \<and> status_animation_step (state (zmk_led_write_pixels cfg bat painted w))
           = status_animation_step (state w) + 1"
proof -
  have lt: "uint (status_animation_step (state w)) < 400"
    using assms(3) by (simp add: word_less_def)
  show ?thesis
    using assms(1,2) lt
    by (simp add: zmk_led_write_pixels_def zmk_led_generate_status_def Let_def call_def
        split: prod.splits)
qed

lemma status_tick_done:
  assumes "indicators_enabled cfg" "status_active (state w)"
    "400 \<le> status_animation_step (state w)"
  shows "\<not> status_active (state (zmk_led_write_pixels cfg bat painted w))
       \<and> status_animation_step (state (zmk_led_write_pixels cfg bat painted w)) = 1
       \<and> status_animation_step (state (snd (zmk_led_generate_status cfg painted w))) = 0"
proof -
  have ge: "400 \<le> uint (status_animation_step (state w))"
    using assms(3) by (simp add: word_le_def)
  show ?thesis
    using assms(1,2) ge
    by (simp add: zmk_led_write_pixels_def zmk_led_generate_status_def Let_def call_def
        split: prod.splits)
qed

lemma status_run:
  assumes "indicators_enabled cfg" "status_active (state w)"
    "status_animation_step (state w) = 0"
  shows "k \<le> 400 \<Longrightarrow>
     status_active (state ((zmk_led_write_pixels cfg bat painted ^^ k) w))
   \<and> uint (status_animation_step (state ((zmk_led_write_pixels cfg bat painted ^^ k) w))) = int k"
proof (induction k)
  case 0
  then show ?case using assms by simp
next
  case (Suc k)
  let ?w = "(zmk_led_write_pixels cfg bat painted ^^ k) w"
  from Suc have act: "status_active (state ?w)"
    and cnt: "uint (status_animation_step (state ?w)) = int k" and k: "k < 400"
    by simp_all
  have lt: "status_animation_step (state ?w) < 400"
    using cnt k by (simp add: word_less_def)
  note t = status_tick_running [OF assms(1) act lt, of bat painted]
  have "uint (status_animation_step (state ?w) + 1) = (int k + 1) mod 65536"
    by (simp add: uint_word_ariths cnt)
  also have "\<dots> = int k + 1" using k by simp
  finally have "uint (status_animation_step (state ?w) + 1) = int (Suc k)" by simp
  with t show ?case by simp
qed

lemma status_run_ends:
  assumes "indicators_enabled cfg" "status_active (state w)"
    "status_animation_step (state w) = 0"
  shows "\<not> status_active (state ((zmk_led_write_pixels cfg bat painted ^^ 401) w))
       \<and> status_animation_step (state ((zmk_led_write_pixels cfg bat painted ^^ 401) w)) = 1"
proof -
  let ?w = "(zmk_led_write_pixels cfg bat painted ^^ 400) w"
  have r: "status_active (state ?w) \<and> uint (status_animation_step (state ?w)) = int 400"
    by (rule status_run [OF assms]) simp
  then have ge: "400 \<le> status_animation_step (state ?w)" by (simp add: word_le_def)
  have "(zmk_led_write_pixels cfg bat painted ^^ 401) w = zmk_led_write_pixels cfg bat painted ?w"
    by (simp add: eval_nat_numeral)
  then show ?thesis
    using status_tick_done [OF assms(1) _ ge, of bat painted] r by simp
qed

text \<open>
  C7. The claim ends with the counter reset to 0 once it has reached 400. In the pass
  that finds the counter at 400, \<^verbatim>\<open>zmk_led_generate_status\<close> clears \<^verbatim>\<open>status_active\<close>
  and sets the counter to 0, and \<^verbatim>\<open>zmk_led_write_pixels\<close> then executes its
  \<^verbatim>\<open>state.status_animation_step++\<close>: the pass ends with the overlay inactive and the
  counter at 1.
\<close>

theorem status_counter_after_fade_out:
  "\<not> status_active (state (zmk_led_write_pixels sample_config 100 [black, black, black]
        (sample_underglow\<lparr>state := (state sample_underglow)
           \<lparr>status_active := True, status_animation_step := 400\<rparr>\<rparr>)))
   \<and> status_animation_step (state (zmk_led_write_pixels sample_config 100 [black, black, black]
        (sample_underglow\<lparr>state := (state sample_underglow)
           \<lparr>status_active := True, status_animation_step := 400\<rparr>\<rparr>))) = 1"
  by (simp add: zmk_led_write_pixels_def zmk_led_generate_status_def Let_def call_def
      sample_config_def sample_underglow_def)

end
